theory Spec2Isabelle
  imports Main "HOL-Library.Multiset" "HOL-Library.Char_ord" "HOL-Library.List_Lexorder"
begin

section \<open>The LoopBack wallet of composer-rest-server\<close>

text \<open>
  The development embeds \<^verbatim>\<open>packages/composer-rest-server/lib/loopbackwallet.js\<close>:
  the class \<^verbatim>\<open>LoopBackWallet\<close> with its constructor and its six methods
  \<^verbatim>\<open>list\<close>, \<^verbatim>\<open>contains\<close>, \<^verbatim>\<open>get\<close>, \<^verbatim>\<open>add\<close>, \<^verbatim>\<open>update\<close> and \<^verbatim>\<open>remove\<close>.
  Every method calls \<^verbatim>\<open>findOne\<close> on the \<^verbatim>\<open>WalletIdentity\<close> model of the application it
  was constructed with, and chains one callback with \<^verbatim>\<open>then\<close>; the callback reads or
  changes the \<^verbatim>\<open>data\<close> object of the identity it receives, and the three mutators end
  with \<^verbatim>\<open>identity.save()\<close>.
\<close>

subsection \<open>Promises and errors\<close>

text \<open>
  A promise is modelled by its outcome: rejected with an error (\<open>Inl\<close>) or resolved with a
  value (\<open>Inr\<close>). \<open>NotFoundError\<close> and \<open>StoreError\<close> are the rejections of the record store;
  \<open>TypeError\<close> is the exception the JavaScript runtime throws inside a callback (reading a
  property of \<^verbatim>\<open>null\<close>, calling a value that is not a function), which \<^verbatim>\<open>then\<close> turns into
  a rejection.
\<close>

datatype error = NotFoundError | StoreError string | TypeError

type_synonym 'a promise = "error + 'a"

text \<open>\<^verbatim>\<open>p.then(f)\<close>: a rejection of \<open>p\<close> passes through, a resolution is handed to \<open>f\<close>.\<close>

definition then_promise :: "'a promise \<Rightarrow> ('a \<Rightarrow> 'b promise) \<Rightarrow> 'b promise" where
  "then_promise p f = (case p of Inl e \<Rightarrow> Inl e | Inr x \<Rightarrow> f x)"

subsection \<open>The \<^verbatim>\<open>data\<close> object\<close>

text \<open>
  \<^verbatim>\<open>identity.data\<close> is an ordinary JavaScript object used as a map from credential names
  to credentials. Its own enumerable properties are kept as an association list in creation
  order; the credentials are strings (the \<^verbatim>\<open>@param {string} value\<close> of \<^verbatim>\<open>add\<close> and
  \<^verbatim>\<open>update\<close>). Names are strings of 8-bit code units, ordered by their code.

  The object inherits from \<^verbatim>\<open>Object.prototype\<close>: \<^verbatim>\<open>contains\<close> calls
  \<^verbatim>\<open>identity.data.hasOwnProperty\<close>, which is found there. So a property read
  \<^verbatim>\<open>data[name]\<close> falls back to the prototype when \<open>name\<close> is not an own property, and
  yields \<^verbatim>\<open>undefined\<close> only when the prototype has no such property either.
\<close>

datatype jsval =
    Undefined
  | Str string
  | Builtin string
  | ObjectPrototype

type_synonym js_object = "(string \<times> string) list"

text \<open>The function-valued properties of \<^verbatim>\<open>Object.prototype\<close> (all of them not enumerable).\<close>

definition Object_prototype_functions :: "string list" where
  "Object_prototype_functions =
     [''constructor'', ''__defineGetter__'', ''__defineSetter__'', ''hasOwnProperty'',
      ''__lookupGetter__'', ''__lookupSetter__'', ''isPrototypeOf'',
      ''propertyIsEnumerable'', ''toString'', ''valueOf'', ''toLocaleString'']"

text \<open>
  \<^verbatim>\<open>obj[name]\<close>: the own property if there is one; otherwise the inherited one, where
  \<^verbatim>\<open>__proto__\<close> is an accessor whose getter returns the prototype of the object.
\<close>

definition js_get :: "js_object \<Rightarrow> string \<Rightarrow> jsval" where
  "js_get obj name =
     (case map_of obj name of
        Some v \<Rightarrow> Str v
      | None \<Rightarrow>
          if name = ''__proto__'' then ObjectPrototype
          else if name \<in> set Object_prototype_functions then Builtin name
          else Undefined)"

text \<open>Writing an own data property: in place when it exists, appended when it is new.\<close>

fun put_own :: "string \<Rightarrow> string \<Rightarrow> js_object \<Rightarrow> js_object" where
  "put_own name v [] = [(name, v)]"
| "put_own name v (p # ps) =
     (if fst p = name then (name, v) # ps else p # put_own name v ps)"

text \<open>
  \<^verbatim>\<open>obj[name] = value\<close> with a string \<open>value\<close>. An own property is overwritten. Without
  one, the inherited property decides: the functions of \<^verbatim>\<open>Object.prototype\<close> are writable
  data properties, so an own property is created; \<^verbatim>\<open>__proto__\<close> is an accessor, its setter
  is called, and the setter ignores a value that is neither an object nor \<^verbatim>\<open>null\<close>.
\<close>

definition js_set :: "js_object \<Rightarrow> string \<Rightarrow> string \<Rightarrow> js_object" where
  "js_set obj name v =
     (if map_of obj name = None \<and> name = ''__proto__'' then obj
      else put_own name v obj)"

text \<open>\<^verbatim>\<open>delete obj[name]\<close>: removes the own property, does nothing when there is none.\<close>

definition js_delete :: "js_object \<Rightarrow> string \<Rightarrow> js_object" where
  "js_delete obj name = filter (\<lambda>p. fst p \<noteq> name) obj"

text \<open>
  \<^verbatim>\<open>Object.keys(obj)\<close>: the names of the own enumerable properties. (JavaScript lists
  names that are array indices first; every caller here sorts the result.)
\<close>

definition Object_keys :: "js_object \<Rightarrow> string list" where
  "Object_keys obj = map fst obj"

text \<open>The built-in \<^verbatim>\<open>Object.prototype.hasOwnProperty\<close>, applied to \<open>obj\<close>.\<close>

definition hasOwnProperty :: "js_object \<Rightarrow> string \<Rightarrow> bool" where
  "hasOwnProperty obj name \<longleftrightarrow> map_of obj name \<noteq> None"

text \<open>
  The method call \<^verbatim>\<open>obj.hasOwnProperty(name)\<close>: the property \<^verbatim>\<open>hasOwnProperty\<close> is read
  from \<open>obj\<close> like any other property and then called. An own property of that name holds a
  credential, a string, and calling a string throws a \<^verbatim>\<open>TypeError\<close>.
\<close>

definition call_hasOwnProperty :: "js_object \<Rightarrow> string \<Rightarrow> bool promise" where
  "call_hasOwnProperty obj name =
     (case js_get obj ''hasOwnProperty'' of
        Builtin f \<Rightarrow> Inr (hasOwnProperty obj name)
      | _ \<Rightarrow> Inl TypeError)"

text \<open>
  \<^verbatim>\<open>names.sort()\<close> without a comparison function orders strings by their code units,
  a shorter string before its extensions: the lexicographic order on \<open>string\<close>.
\<close>

definition js_sort :: "string list \<Rightarrow> string list" where
  "js_sort names = sort names"

subsection \<open>The record store\<close>

text \<open>A \<^verbatim>\<open>WalletIdentity\<close> instance, with the three members the wallet uses.\<close>

record identity =
  walletId :: string
  enrollmentID :: string
  data :: js_object

text \<open>
  The argument of \<^verbatim>\<open>findOne\<close>. The source writes two shapes of it:
  \<^verbatim>\<open>{ where: { walletId: w, enrollmentID: e } }\<close> is \<open>Where w e\<close>, and
  \<^verbatim>\<open>{ walletId: w, enrollmentID: e }\<close>, with no \<^verbatim>\<open>where\<close> member, is \<open>TopLevel w e\<close>.
\<close>

datatype filter = Where string string | TopLevel string string

text \<open>
  The LoopBack application is a parameter of the constructor; the wallet uses
  \<^verbatim>\<open>app.models.WalletIdentity.findOne\<close> and the \<^verbatim>\<open>save\<close> method of the instance that
  \<open>findOne\<close> resolved with. Both are functions of the state \<open>'st\<close> of the data source.
  \<open>findOne\<close> resolves with an instance or with \<^verbatim>\<open>null\<close> (\<open>None\<close>), or is rejected;
  \<open>save\<close> resolves with the new state or is rejected.
\<close>

record 'st loopback_app =
  findOne :: "filter \<Rightarrow> 'st \<Rightarrow> identity option promise"
  save :: "identity \<Rightarrow> 'st \<Rightarrow> 'st promise"

text \<open>The wallet instance passed to the constructor; only its \<^verbatim>\<open>id\<close> is read.\<close>

record wallet_instance =
  wallet_id :: string

subsection \<open>The class \<^verbatim>\<open>LoopBackWallet\<close>\<close>

record 'st LoopBackWallet =
  app :: "'st loopback_app"
  wallet :: wallet_instance
  this_enrollmentID :: string

definition constructor ::
  "'st loopback_app \<Rightarrow> wallet_instance \<Rightarrow> string \<Rightarrow> 'st LoopBackWallet" where
  "constructor a w e = \<lparr>app = a, wallet = w, this_enrollmentID = e\<rparr>"

text \<open>The filter each method hands to \<^verbatim>\<open>findOne\<close>, as its first line writes it.\<close>

definition list_filter :: "'st LoopBackWallet \<Rightarrow> filter" where
  "list_filter this = TopLevel (wallet_id (wallet this)) (this_enrollmentID this)"

definition contains_filter :: "'st LoopBackWallet \<Rightarrow> filter" where
  "contains_filter this = TopLevel (wallet_id (wallet this)) (this_enrollmentID this)"

definition get_filter :: "'st LoopBackWallet \<Rightarrow> filter" where
  "get_filter this = Where (wallet_id (wallet this)) (this_enrollmentID this)"

definition add_filter :: "'st LoopBackWallet \<Rightarrow> filter" where
  "add_filter this = Where (wallet_id (wallet this)) (this_enrollmentID this)"

definition update_filter :: "'st LoopBackWallet \<Rightarrow> filter" where
  "update_filter this = Where (wallet_id (wallet this)) (this_enrollmentID this)"

definition remove_filter :: "'st LoopBackWallet \<Rightarrow> filter" where
  "remove_filter this = TopLevel (wallet_id (wallet this)) (this_enrollmentID this)"

text \<open>
  A callback receives what \<open>findOne\<close> resolved with and starts by reading
  \<^verbatim>\<open>identity.data\<close>, which throws a \<^verbatim>\<open>TypeError\<close> when the identity is \<^verbatim>\<open>null\<close>.
\<close>

definition with_identity :: "identity option \<Rightarrow> (identity \<Rightarrow> 'a promise) \<Rightarrow> 'a promise" where
  "with_identity found f = (case found of None \<Rightarrow> Inl TypeError | Some i \<Rightarrow> f i)"

definition list :: "'st LoopBackWallet \<Rightarrow> 'st \<Rightarrow> string list promise" where
  "list this st =
     then_promise (findOne (app this) (list_filter this) st)
       (\<lambda>found. with_identity found
          (\<lambda>i. Inr (js_sort (Object_keys (data i)))))"

definition contains :: "'st LoopBackWallet \<Rightarrow> string \<Rightarrow> 'st \<Rightarrow> bool promise" where
  "contains this name st =
     then_promise (findOne (app this) (contains_filter this) st)
       (\<lambda>found. with_identity found
          (\<lambda>i. call_hasOwnProperty (data i) name))"

definition get :: "'st LoopBackWallet \<Rightarrow> string \<Rightarrow> 'st \<Rightarrow> jsval promise" where
  "get this name st =
     then_promise (findOne (app this) (get_filter this) st)
       (\<lambda>found. with_identity found
          (\<lambda>i. Inr (js_get (data i) name)))"

definition add :: "'st LoopBackWallet \<Rightarrow> string \<Rightarrow> string \<Rightarrow> 'st \<Rightarrow> 'st promise" where
  "add this name v st =
     then_promise (findOne (app this) (add_filter this) st)
       (\<lambda>found. with_identity found
          (\<lambda>i. save (app this) (i\<lparr>data := js_set (data i) name v\<rparr>) st))"

definition update :: "'st LoopBackWallet \<Rightarrow> string \<Rightarrow> string \<Rightarrow> 'st \<Rightarrow> 'st promise" where
  "update this name v st =
     then_promise (findOne (app this) (update_filter this) st)
       (\<lambda>found. with_identity found
          (\<lambda>i. save (app this) (i\<lparr>data := js_set (data i) name v\<rparr>) st))"

definition remove :: "'st LoopBackWallet \<Rightarrow> string \<Rightarrow> 'st \<Rightarrow> 'st promise" where
  "remove this name st =
     then_promise (findOne (app this) (remove_filter this) st)
       (\<lambda>found. with_identity found
          (\<lambda>i. save (app this) (i\<lparr>data := js_delete (data i) name\<rparr>) st))"

subsection \<open>A record store in memory\<close>

text \<open>
  Modelled from the spec: the backing record store (the LoopBack data source behind
  \<^verbatim>\<open>app.models.WalletIdentity\<close>) is an external collaborator and no source of it is part
  of the repository. Section 6 of the specification gives its two operations: a lookup by
  the composite key that yields the record or NotFound, and a save that writes the whole
  record back, overwriting what the store holds. The store below keeps the records in a
  list. A filter constrains the lookup through its \<^verbatim>\<open>where\<close> member only, as a LoopBack
  filter does: a filter without that member selects among all records. The store serves as
  the concrete instance at which the general statements are evaluated.
\<close>

type_synonym memory = "identity list"

fun selects :: "filter \<Rightarrow> identity \<Rightarrow> bool" where
  "selects (Where w e) r \<longleftrightarrow> walletId r = w \<and> enrollmentID r = e"
| "selects (TopLevel w e) r \<longleftrightarrow> True"

definition memory_findOne :: "filter \<Rightarrow> memory \<Rightarrow> identity option promise" where
  "memory_findOne q st =
     (case List.find (selects q) st of
        None \<Rightarrow> Inl NotFoundError
      | Some r \<Rightarrow> Inr (Some r))"

definition same_key :: "identity \<Rightarrow> identity \<Rightarrow> bool" where
  "same_key r r' \<longleftrightarrow> walletId r = walletId r' \<and> enrollmentID r = enrollmentID r'"

definition memory_save :: "identity \<Rightarrow> memory \<Rightarrow> memory promise" where
  "memory_save r st =
     Inr (if list_ex (same_key r) st
          then map (\<lambda>r'. if same_key r r' then r else r') st
          else st @ [r])"

definition memory_app :: "memory loopback_app" where
  "memory_app = \<lparr>findOne = memory_findOne, save = memory_save\<rparr>"

text \<open>
  What the sequencing statements need of a store: once a lookup has resolved with a record,
  a successful save of a record with the same composite key makes the same lookup resolve
  with the saved record.
\<close>

definition read_your_write :: "'st loopback_app \<Rightarrow> filter \<Rightarrow> bool" where
  "read_your_write a q \<longleftrightarrow>
     (\<forall>st st' r r'.
        findOne a q st = Inr (Some r) \<and> save a r' st = Inr st' \<and> same_key r' r
        \<longrightarrow> findOne a q st' = Inr (Some r'))"

text \<open>A wallet and records to evaluate at.\<close>

definition alice :: "memory LoopBackWallet" where
  "alice = constructor memory_app \<lparr>wallet_id = ''w1''\<rparr> ''alice''"

definition alice_identity :: "js_object \<Rightarrow> identity" where
  "alice_identity d = \<lparr>walletId = ''w1'', enrollmentID = ''alice'', data = d\<rparr>"

definition bob_identity :: "js_object \<Rightarrow> identity" where
  "bob_identity d = \<lparr>walletId = ''w0'', enrollmentID = ''bob'', data = d\<rparr>"

lemmas filter_defs =
  list_filter_def contains_filter_def get_filter_def
  add_filter_def update_filter_def remove_filter_def

lemmas object_defs =
  js_get_def js_set_def js_delete_def Object_keys_def hasOwnProperty_def
  call_hasOwnProperty_def js_sort_def Object_prototype_functions_def

lemmas method_defs =
  list_def contains_def get_def add_def update_def remove_def
  then_promise_def with_identity_def

lemmas memory_defs =
  alice_def alice_identity_def bob_identity_def constructor_def memory_app_def
  memory_findOne_def memory_save_def same_key_def

section \<open>Properties of the \<^verbatim>\<open>data\<close> object\<close>

lemma map_of_put_own: "map_of (put_own name v obj) = (map_of obj)(name \<mapsto> v)"
  by (induction obj) (auto simp: fun_eq_iff)

lemma map_of_js_set_other:
  "name' \<noteq> name \<Longrightarrow> map_of (js_set obj name v) name' = map_of obj name'"
  by (simp add: js_set_def map_of_put_own)

lemma map_of_js_set_same:
  "name \<noteq> ''__proto__'' \<or> hasOwnProperty obj name \<Longrightarrow>
   map_of (js_set obj name v) name = Some v"
  by (auto simp: js_set_def map_of_put_own hasOwnProperty_def)

lemma map_of_js_delete: "map_of (js_delete obj name) = (map_of obj)(name := None)"
  by (induction obj) (auto simp: js_delete_def fun_eq_iff)

lemma js_delete_absent: "\<not> hasOwnProperty obj name \<Longrightarrow> js_delete obj name = obj"
proof -
  assume "\<not> hasOwnProperty obj name"
  then have "name \<notin> fst ` set obj"
    by (simp add: hasOwnProperty_def map_of_eq_None_iff)
  then have "\<forall>p \<in> set obj. fst p \<noteq> name"
    by auto
  then show ?thesis
    by (simp add: js_delete_def)
qed

lemma js_delete_idem: "js_delete (js_delete obj name) name = js_delete obj name"
  by (simp add: js_delete_def)

lemma js_get_cong_own:
  "map_of obj' name = map_of obj name \<Longrightarrow> js_get obj' name = js_get obj name"
  by (simp add: js_get_def)

lemma set_Object_keys: "set (Object_keys obj) = {name. hasOwnProperty obj name}"
  by (auto simp: Object_keys_def hasOwnProperty_def map_of_eq_None_iff)

section \<open>Properties of the methods\<close>

subsection \<open>What each callback does with the identity it receives\<close>

lemma list_resolves:
  "findOne (app this) (list_filter this) st = Inr (Some i) \<Longrightarrow>
   list this st = Inr (js_sort (Object_keys (data i)))"
  by (simp add: list_def then_promise_def with_identity_def)

lemma contains_resolves:
  "findOne (app this) (contains_filter this) st = Inr (Some i) \<Longrightarrow>
   contains this name st = call_hasOwnProperty (data i) name"
  by (simp add: contains_def then_promise_def with_identity_def)

lemma get_resolves:
  "findOne (app this) (get_filter this) st = Inr (Some i) \<Longrightarrow>
   get this name st = Inr (js_get (data i) name)"
  by (simp add: get_def then_promise_def with_identity_def)

lemma add_saves:
  "findOne (app this) (add_filter this) st = Inr (Some i) \<Longrightarrow>
   add this name v st = save (app this) (i\<lparr>data := js_set (data i) name v\<rparr>) st"
  by (simp add: add_def then_promise_def with_identity_def)

lemma remove_saves:
  "findOne (app this) (remove_filter this) st = Inr (Some i) \<Longrightarrow>
   remove this name st = save (app this) (i\<lparr>data := js_delete (data i) name\<rparr>) st"
  by (simp add: remove_def then_promise_def with_identity_def)

text \<open>A lookup that resolves with \<^verbatim>\<open>null\<close> makes every callback throw.\<close>

lemma null_identity_throws:
  "findOne (app this) (list_filter this) st = Inr None \<Longrightarrow> list this st = Inl TypeError"
  "findOne (app this) (contains_filter this) st = Inr None \<Longrightarrow>
     contains this name st = Inl TypeError"
  "findOne (app this) (get_filter this) st = Inr None \<Longrightarrow> get this name st = Inl TypeError"
  "findOne (app this) (add_filter this) st = Inr None \<Longrightarrow> add this name v st = Inl TypeError"
  "findOne (app this) (update_filter this) st = Inr None \<Longrightarrow>
     update this name v st = Inl TypeError"
  "findOne (app this) (remove_filter this) st = Inr None \<Longrightarrow>
     remove this name st = Inl TypeError"
  by (simp_all add: method_defs)

subsection \<open>The store in memory reads its own writes\<close>

lemma memory_read_your_write: "read_your_write memory_app q"
proof -
  have step: "List.find (selects q) (map (\<lambda>x. if same_key r' x then r' else x) st) = Some r'"
    if "List.find (selects q) st = Some r" and "same_key r' r" for st r r'
    using that
  proof (induction st)
    case Nil
    then show ?case by simp
  next
    case (Cons x st)
    then show ?case
      by (cases q) (auto simp: same_key_def)
  qed
  have ex: "list_ex (same_key r') st"
    if "List.find (selects q) st = Some r" and "same_key r' r" for st r r'
    using that by (auto simp: list_ex_iff find_Some_iff)
  show ?thesis
    unfolding read_your_write_def
    by (auto simp: memory_app_def memory_findOne_def memory_save_def step ex
        split: option.splits)
qed

subsection \<open>Names that \<^verbatim>\<open>Object.prototype\<close> does not know\<close>

text \<open>
  For a name that is neither \<^verbatim>\<open>__proto__\<close> nor a function of \<^verbatim>\<open>Object.prototype\<close>, the
  \<^verbatim>\<open>data\<close> object behaves as a map: reading an absent name gives \<^verbatim>\<open>undefined\<close>, a value
  added is the value read back, also by a wallet constructed anew, and a name removed is
  absent afterwards.
\<close>

lemma get_ordinary_absent_name:
  assumes "findOne (app this) (get_filter this) st = Inr (Some i)"
    and "\<not> hasOwnProperty (data i) name"
    and "name \<noteq> ''__proto__''" and "name \<notin> set Object_prototype_functions"
  shows "get this name st = Inr Undefined"
  using assms by (simp add: get_resolves js_get_def hasOwnProperty_def)

lemma contains_unshadowed:
  assumes "findOne (app this) (contains_filter this) st = Inr (Some i)"
    and "\<not> hasOwnProperty (data i) ''hasOwnProperty''"
  shows "contains this name st = Inr (hasOwnProperty (data i) name)"
  using assms
  by (simp add: contains_resolves call_hasOwnProperty_def js_get_def hasOwnProperty_def
      Object_prototype_functions_def)

lemma get_after_add:
  assumes law: "read_your_write a (add_filter this)"
    and a: "app this = a" "app this' = a"
    and same: "wallet_id (wallet this') = wallet_id (wallet this)"
      "this_enrollmentID this' = this_enrollmentID this"
    and found: "findOne a (add_filter this) st = Inr (Some i)"
    and added: "add this name v st = Inr st'"
    and name: "name \<noteq> ''__proto__'' \<or> hasOwnProperty (data i) name"
  shows "get this' name st' = Inr (Str v)"
proof -
  let ?i' = "i\<lparr>data := js_set (data i) name v\<rparr>"
  have "save a ?i' st = Inr st'"
    using found added a by (simp add: add_saves)
  moreover have "same_key ?i' i"
    by (simp add: same_key_def)
  ultimately have "findOne a (add_filter this) st' = Inr (Some ?i')"
    using law found unfolding read_your_write_def by blast
  then have "findOne (app this') (get_filter this') st' = Inr (Some ?i')"
    using a same by (simp add: get_filter_def add_filter_def)
  then have "get this' name st' = Inr (js_get (data ?i') name)"
    by (rule get_resolves)
  then show ?thesis
    using name by (simp add: js_get_def map_of_js_set_same)
qed

lemma get_after_two_adds:
  assumes law: "read_your_write (app this) (add_filter this)"
    and found: "findOne (app this) (add_filter this) st = Inr (Some i)"
    and first: "add this name v1 st = Inr st1"
    and second: "add this name v2 st1 = Inr st2"
    and name: "name \<noteq> ''__proto__'' \<or> hasOwnProperty (data i) name"
  shows "get this name st2 = Inr (Str v2)"
proof -
  let ?i1 = "i\<lparr>data := js_set (data i) name v1\<rparr>"
  have "save (app this) ?i1 st = Inr st1"
    using found first by (simp add: add_saves)
  moreover have "same_key ?i1 i"
    by (simp add: same_key_def)
  ultimately have found1: "findOne (app this) (add_filter this) st1 = Inr (Some ?i1)"
    using law found unfolding read_your_write_def by blast
  have "name \<noteq> ''__proto__'' \<or> hasOwnProperty (data ?i1) name"
    using name by (auto simp: hasOwnProperty_def map_of_js_set_same)
  with law found1 second show ?thesis
    by (intro get_after_add [where this = this and st = st1 and i = ?i1]) simp_all
qed

lemma get_after_remove:
  assumes law: "read_your_write (app this) (remove_filter this)"
    and found: "findOne (app this) (remove_filter this) st = Inr (Some i)"
    and removed: "remove this name st = Inr st'"
    and same: "findOne (app this) (get_filter this) st' =
               findOne (app this) (remove_filter this) st'"
    and name: "name \<noteq> ''__proto__''" "name \<notin> set Object_prototype_functions"
  shows "get this name st' = Inr Undefined"
proof -
  let ?i' = "i\<lparr>data := js_delete (data i) name\<rparr>"
  have "save (app this) ?i' st = Inr st'"
    using found removed by (simp add: remove_saves)
  moreover have "same_key ?i' i"
    by (simp add: same_key_def)
  ultimately have "findOne (app this) (remove_filter this) st' = Inr (Some ?i')"
    using law found unfolding read_your_write_def by blast
  then have "findOne (app this) (get_filter this) st' = Inr (Some ?i')"
    using same by simp
  moreover have "\<not> hasOwnProperty (data ?i') name"
    by (simp add: hasOwnProperty_def map_of_js_delete)
  ultimately show ?thesis
    using name by (rule get_ordinary_absent_name)
qed

text \<open>Removing an absent name saves the record as it was; a second removal changes nothing.\<close>

lemma remove_absent_name:
  assumes "findOne (app this) (remove_filter this) st = Inr (Some i)"
    and "\<not> hasOwnProperty (data i) name"
  shows "remove this name st = save (app this) i st"
  using assms by (simp add: remove_saves js_delete_absent)

lemma remove_twice:
  assumes law: "read_your_write (app this) (remove_filter this)"
    and found: "findOne (app this) (remove_filter this) st = Inr (Some i)"
    and first: "remove this name st = Inr st1"
    and second: "remove this name st1 = Inr st2"
  shows "findOne (app this) (remove_filter this) st2 =
         findOne (app this) (remove_filter this) st1"
proof -
  let ?i1 = "i\<lparr>data := js_delete (data i) name\<rparr>"
  have "save (app this) ?i1 st = Inr st1"
    using found first by (simp add: remove_saves)
  moreover have "same_key ?i1 i"
    by (simp add: same_key_def)
  ultimately have found1: "findOne (app this) (remove_filter this) st1 = Inr (Some ?i1)"
    using law found unfolding read_your_write_def by blast
  then have "save (app this) ?i1 st1 = Inr st2"
    using second by (simp add: remove_saves js_delete_idem)
  moreover have "same_key ?i1 ?i1"
    by (simp add: same_key_def)
  ultimately have "findOne (app this) (remove_filter this) st2 = Inr (Some ?i1)"
    using law found1 unfolding read_your_write_def by blast
  with found1 show ?thesis
    by simp
qed

subsection \<open>Rejections of the lookup, and the record a lookup resolves with\<close>

text \<open>
  No method handles a rejection: when the lookup a method issues is rejected, the callback
  is skipped and the method is rejected with the same error.
\<close>

lemma rejection_passes_through:
  "(findOne (app this) (list_filter this) st = Inl e \<longrightarrow> list this st = Inl e) \<and>
   (findOne (app this) (contains_filter this) st = Inl e \<longrightarrow> contains this name st = Inl e) \<and>
   (findOne (app this) (get_filter this) st = Inl e \<longrightarrow> get this name st = Inl e) \<and>
   (findOne (app this) (add_filter this) st = Inl e \<longrightarrow> add this name v st = Inl e) \<and>
   (findOne (app this) (update_filter this) st = Inl e \<longrightarrow> update this name v st = Inl e) \<and>
   (findOne (app this) (remove_filter this) st = Inl e \<longrightarrow> remove this name st = Inl e)"
  by (simp add: method_defs)

text \<open>
  On the store in memory, the three methods that look up with a \<^verbatim>\<open>where\<close> member report
  a missing record: whenever the store holds no record for the pair, they are rejected with
  \<open>NotFoundError\<close>.
\<close>

lemma where_methods_report_missing_record:
  assumes "\<not> list_ex (\<lambda>r. walletId r = w \<and> enrollmentID r = e) st"
  shows "get (constructor memory_app \<lparr>wallet_id = w\<rparr> e) name st = Inl NotFoundError"
    and "add (constructor memory_app \<lparr>wallet_id = w\<rparr> e) name v st = Inl NotFoundError"
    and "update (constructor memory_app \<lparr>wallet_id = w\<rparr> e) name v st = Inl NotFoundError"
proof -
  have "List.find (selects (Where w e)) st = None"
    using assms by (simp add: find_None_iff list_ex_iff)
  then show
    "get (constructor memory_app \<lparr>wallet_id = w\<rparr> e) name st = Inl NotFoundError"
    "add (constructor memory_app \<lparr>wallet_id = w\<rparr> e) name v st = Inl NotFoundError"
    "update (constructor memory_app \<lparr>wallet_id = w\<rparr> e) name v st = Inl NotFoundError"
    by (simp_all add: method_defs filter_defs constructor_def memory_app_def
        memory_findOne_def)
qed

text \<open>
  Whatever record the lookup of \<^verbatim>\<open>list\<close> resolves with, the result is the sorted list of
  the names of its own properties: ascending in the lexicographic order of the code units,
  each name as often as \<^verbatim>\<open>Object.keys\<close> gives it, and empty for an empty object.
\<close>

lemma list_keys_of_fetched_record:
  assumes "findOne (app this) (list_filter this) st = Inr (Some i)"
  shows "\<exists>names. list this st = Inr names \<and>
           sorted names \<and>
           mset names = mset (Object_keys (data i)) \<and>
           set names = {name. hasOwnProperty (data i) name} \<and>
           (data i = [] \<longrightarrow> names = [])"
proof -
  let ?names = "js_sort (Object_keys (data i))"
  have "list this st = Inr ?names"
    using assms by (rule list_resolves)
  moreover have "sorted ?names"
    by (simp add: js_sort_def)
  moreover have "mset ?names = mset (Object_keys (data i))"
    by (simp add: js_sort_def)
  moreover have "set ?names = {name. hasOwnProperty (data i) name}"
    by (simp add: js_sort_def set_Object_keys)
  moreover have "data i = [] \<longrightarrow> ?names = []"
    by (simp add: js_sort_def Object_keys_def)
  ultimately show ?thesis
    by blast
qed

lemma list_single_record_memory:
  "list alice
     [alice_identity [(''key'', ''B''), (''cert'', ''A''), (''Key'', ''C''), (''ce'', ''D'')]]
     = Inr [''Key'', ''ce'', ''cert'', ''key''] \<and>
   list alice [alice_identity []] = Inr []"
  by (simp add: memory_defs filter_defs method_defs object_defs)

text \<open>The scenario of the specification, on the store in memory.\<close>

lemma cert_key_scenario:
  "list alice [alice_identity [(''cert'', ''A'')]] = Inr [''cert''] \<and>
   add alice ''key'' ''B'' [alice_identity [(''cert'', ''A'')]]
     = Inr [alice_identity [(''cert'', ''A''), (''key'', ''B'')]] \<and>
   list alice [alice_identity [(''cert'', ''A''), (''key'', ''B'')]] = Inr [''cert'', ''key''] \<and>
   remove alice ''cert'' [alice_identity [(''cert'', ''A''), (''key'', ''B'')]]
     = Inr [alice_identity [(''key'', ''B'')]] \<and>
   contains alice ''cert'' [alice_identity [(''key'', ''B'')]] = Inr False \<and>
   get alice ''cert'' [alice_identity [(''key'', ''B'')]] = Inr Undefined"
  by (simp add: memory_defs filter_defs method_defs object_defs)

lemma add_add_get_memory:
  "add alice ''key'' ''B'' [alice_identity [(''cert'', ''A'')]]
     = Inr [alice_identity [(''cert'', ''A''), (''key'', ''B'')]] \<and>
   add alice ''key'' ''C'' [alice_identity [(''cert'', ''A''), (''key'', ''B'')]]
     = Inr [alice_identity [(''cert'', ''A''), (''key'', ''C'')]] \<and>
   get alice ''key'' [alice_identity [(''cert'', ''A''), (''key'', ''C'')]] = Inr (Str ''C'')"
  by (simp add: memory_defs filter_defs method_defs object_defs)

section \<open>The claims\<close>

text \<open>
  Claim C1. When no record exists for the pair of wallet and enrollment, each of the six
  methods is to fail with the store's \<open>NotFoundError\<close>, unchanged. \<^verbatim>\<open>get\<close>, \<^verbatim>\<open>add\<close>
  and \<^verbatim>\<open>update\<close> do (\<open>where_methods_report_missing_record\<close>). \<^verbatim>\<open>list\<close>,
  \<^verbatim>\<open>contains\<close> and \<^verbatim>\<open>remove\<close> look the record up with a filter that has no
  \<^verbatim>\<open>where\<close> member: with a store that holds only the record of another wallet, the
  lookup by the composite key finds nothing, yet the three methods resolve, answering from
  that other record and, for \<^verbatim>\<open>remove\<close>, changing it.
\<close>

theorem missing_record_not_reported:
  "\<not> list_ex (\<lambda>r. walletId r = ''w1'' \<and> enrollmentID r = ''alice'')
       [bob_identity [(''bob-cert'', ''B'')]] \<and>
   findOne (app alice) (Where ''w1'' ''alice'') [bob_identity [(''bob-cert'', ''B'')]]
     = Inl NotFoundError \<and>
   get alice ''cert'' [bob_identity [(''bob-cert'', ''B'')]] = Inl NotFoundError \<and>
   add alice ''cert'' ''A'' [bob_identity [(''bob-cert'', ''B'')]] = Inl NotFoundError \<and>
   update alice ''cert'' ''A'' [bob_identity [(''bob-cert'', ''B'')]] = Inl NotFoundError \<and>
   list alice [bob_identity [(''bob-cert'', ''B'')]] = Inr [''bob-cert''] \<and>
   contains alice ''cert'' [bob_identity [(''bob-cert'', ''B'')]] = Inr False \<and>
   remove alice ''bob-cert'' [bob_identity [(''bob-cert'', ''B'')]] = Inr [bob_identity []]"
  by (simp add: memory_defs filter_defs method_defs object_defs)

text \<open>
  Claim C2. All six methods are to perform the same lookup: a fetch of the one record
  addressed by the composite key of wallet and enrollment, with the same query. In the
  source, \<^verbatim>\<open>get\<close>, \<^verbatim>\<open>add\<close> and \<^verbatim>\<open>update\<close> put the key under the \<^verbatim>\<open>where\<close> member of
  the filter, while \<^verbatim>\<open>list\<close>, \<^verbatim>\<open>contains\<close> and \<^verbatim>\<open>remove\<close> put the two fields at the top
  level of the filter, which then has no \<^verbatim>\<open>where\<close> member. The theorem evaluates the six
  filters for one wallet: two different queries are issued.
\<close>

theorem lookup_filters_differ:
  "list_filter alice = TopLevel ''w1'' ''alice'' \<and>
   contains_filter alice = TopLevel ''w1'' ''alice'' \<and>
   remove_filter alice = TopLevel ''w1'' ''alice'' \<and>
   get_filter alice = Where ''w1'' ''alice'' \<and>
   add_filter alice = Where ''w1'' ''alice'' \<and>
   update_filter alice = Where ''w1'' ''alice'' \<and>
   list_filter alice \<noteq> get_filter alice"
  by (simp add: memory_defs filter_defs)

text \<open>
  On a store that reads the key from the \<^verbatim>\<open>where\<close> member only, the two queries
  retrieve different records as soon as the store holds the record of another wallet
  first: \<^verbatim>\<open>list\<close> and \<^verbatim>\<open>contains\<close> answer from that record and \<^verbatim>\<open>remove\<close> changes it,
  while \<^verbatim>\<open>get\<close> reads the record of the wallet itself.
\<close>

lemma top_level_filter_reads_first_record:
  "list alice [bob_identity [(''bob-cert'', ''B'')], alice_identity [(''cert'', ''A'')]]
     = Inr [''bob-cert''] \<and>
   contains alice ''cert''
       [bob_identity [(''bob-cert'', ''B'')], alice_identity [(''cert'', ''A'')]]
     = Inr False \<and>
   get alice ''cert''
       [bob_identity [(''bob-cert'', ''B'')], alice_identity [(''cert'', ''A'')]]
     = Inr (Str ''A'') \<and>
   remove alice ''bob-cert''
       [bob_identity [(''bob-cert'', ''B'')], alice_identity [(''cert'', ''A'')]]
     = Inr [bob_identity [], alice_identity [(''cert'', ''A'')]]"
  by (simp add: memory_defs filter_defs method_defs object_defs)

text \<open>
  Claim C3. \<^verbatim>\<open>list\<close> is to resolve with exactly the names that are keys of the \<^verbatim>\<open>data\<close>
  object of the wallet's record, in ascending lexicographic order, and with the empty list
  when there are none. The sorting is as claimed (\<open>list_keys_of_fetched_record\<close>), but the
  record is not the wallet's: the filter of \<^verbatim>\<open>list\<close> has no \<^verbatim>\<open>where\<close> member. With the
  record of another wallet first in the store, \<^verbatim>\<open>list\<close> resolves with the names of that
  record, and a name the wallet has just added is not listed.
\<close>

theorem list_reads_first_record:
  "findOne (app alice) (Where ''w1'' ''alice'')
       [bob_identity [(''bob-cert'', ''B'')], alice_identity [(''cert'', ''A'')]]
     = Inr (Some (alice_identity [(''cert'', ''A'')])) \<and>
   Object_keys (data (alice_identity [(''cert'', ''A'')])) = [''cert''] \<and>
   list alice [bob_identity [(''bob-cert'', ''B'')], alice_identity [(''cert'', ''A'')]]
     = Inr [''bob-cert''] \<and>
   add alice ''key'' ''B''
       [bob_identity [(''bob-cert'', ''B'')], alice_identity [(''cert'', ''A'')]]
     = Inr [bob_identity [(''bob-cert'', ''B'')],
            alice_identity [(''cert'', ''A''), (''key'', ''B'')]] \<and>
   list alice [bob_identity [(''bob-cert'', ''B'')],
               alice_identity [(''cert'', ''A''), (''key'', ''B'')]]
     = Inr [''bob-cert'']"
  by (simp add: memory_defs filter_defs method_defs object_defs)

text \<open>
  Claim C4. \<^verbatim>\<open>update\<close> and \<^verbatim>\<open>add\<close> cannot be told apart: for every wallet, name, value
  and state of the store they have the same outcome, and \<^verbatim>\<open>update\<close> makes no check that
  the name exists already: whatever record its lookup resolves with, it assigns
  \<^verbatim>\<open>data[name]\<close> and saves the record.
\<close>

theorem update_is_add:
  "update this name v st = add this name v st \<and>
   (findOne (app this) (update_filter this) st = Inr (Some i) \<longrightarrow>
      update this name v st = save (app this) (i\<lparr>data := js_set (data i) name v\<rparr>) st)"
  by (simp add: update_def add_def update_filter_def add_filter_def
      then_promise_def with_identity_def)

theorem update_is_add_witness:
  "findOne (app alice) (update_filter alice) [alice_identity [(''cert'', ''A'')]]
     = Inr (Some (alice_identity [(''cert'', ''A'')])) \<and>
   \<not> hasOwnProperty (data (alice_identity [(''cert'', ''A'')])) ''key'' \<and>
   update alice ''key'' ''B'' [alice_identity [(''cert'', ''A'')]]
     = Inr [alice_identity [(''cert'', ''A''), (''key'', ''B'')]] \<and>
   add alice ''key'' ''B'' [alice_identity [(''cert'', ''A'')]]
     = Inr [alice_identity [(''cert'', ''A''), (''key'', ''B'')]]"
  using update_is_add [of alice "''key''" "''B''" "[alice_identity [(''cert'', ''A'')]]"
      "alice_identity [(''cert'', ''A'')]"]
  by (simp add: memory_defs filter_defs method_defs object_defs)

text \<open>
  Claim C5. \<^verbatim>\<open>get\<close> of a name that is not a key of the \<^verbatim>\<open>data\<close> object is to resolve with
  the absent marker, \<^verbatim>\<open>undefined\<close>. The callback returns \<^verbatim>\<open>identity.data[name]\<close>, and
  that read continues in the prototype of the object: for the name \<^verbatim>\<open>toString\<close>, absent
  from an empty \<^verbatim>\<open>data\<close>, \<^verbatim>\<open>get\<close> resolves with the function inherited from
  \<^verbatim>\<open>Object.prototype\<close>.
\<close>

theorem get_absent_inherited_name:
  "\<not> hasOwnProperty (data (alice_identity [])) ''toString'' \<and>
   findOne (app alice) (get_filter alice) [alice_identity []]
     = Inr (Some (alice_identity [])) \<and>
   get alice ''toString'' [alice_identity []] = Inr (Builtin ''toString'') \<and>
   get alice ''toString'' [alice_identity []] \<noteq> Inr Undefined"
  by (simp add: memory_defs filter_defs method_defs object_defs)

text \<open>
  Claim C6. After \<^verbatim>\<open>add(name, v1)\<close> and \<^verbatim>\<open>add(name, v2)\<close>, \<^verbatim>\<open>get(name)\<close> is to resolve with
  \<open>v2\<close>, for every name. For the name \<^verbatim>\<open>__proto__\<close> the assignment
  \<^verbatim>\<open>identity.data[name] = value\<close> reaches the setter inherited from \<^verbatim>\<open>Object.prototype\<close>,
  which drops a string: both calls save the record as it was, and \<^verbatim>\<open>get\<close> resolves with
  the prototype object.
\<close>

theorem add_proto_not_stored:
  "add alice ''__proto__'' ''v1'' [alice_identity []] = Inr [alice_identity []] \<and>
   add alice ''__proto__'' ''v2'' [alice_identity []] = Inr [alice_identity []] \<and>
   get alice ''__proto__'' [alice_identity []] = Inr ObjectPrototype \<and>
   get alice ''__proto__'' [alice_identity []] \<noteq> Inr (Str ''v2'')"
  by (simp add: memory_defs filter_defs method_defs object_defs)

text \<open>
  Claim C7. After \<^verbatim>\<open>remove(name)\<close>, \<^verbatim>\<open>get(name)\<close> is to resolve with the absent marker;
  removing an absent name is no error and leaves the data as they are, so that a second
  removal changes nothing. The removal does what is claimed (\<open>remove_absent_name\<close>,
  \<open>remove_twice\<close>), but the read after it continues in the prototype: once the credential
  named \<^verbatim>\<open>toString\<close> is removed, \<^verbatim>\<open>get\<close> resolves with the inherited function.
\<close>

theorem remove_then_get_inherited_name:
  "remove alice ''toString'' [alice_identity [(''toString'', ''A'')]]
     = Inr [alice_identity []] \<and>
   get alice ''toString'' [alice_identity []] = Inr (Builtin ''toString'') \<and>
   get alice ''toString'' [alice_identity []] \<noteq> Inr Undefined"
  by (simp add: memory_defs filter_defs method_defs object_defs)

text \<open>
  Claim C8. \<^verbatim>\<open>contains(name)\<close> is to resolve with true exactly when the name is an own
  key of the \<^verbatim>\<open>data\<close> object, that is, when it was added and not removed since. The
  callback calls \<^verbatim>\<open>identity.data.hasOwnProperty(name)\<close>, reading the method from the
  object itself: once a credential named \<^verbatim>\<open>hasOwnProperty\<close> is added, the method is
  shadowed by a string and \<^verbatim>\<open>contains\<close> is rejected with a \<^verbatim>\<open>TypeError\<close>, also for the
  name that was just added.
\<close>

theorem contains_shadowed_hasOwnProperty:
  "add alice ''hasOwnProperty'' ''pw'' [alice_identity []]
     = Inr [alice_identity [(''hasOwnProperty'', ''pw'')]] \<and>
   hasOwnProperty (data (alice_identity [(''hasOwnProperty'', ''pw'')])) ''hasOwnProperty'' \<and>
   contains alice ''hasOwnProperty'' [alice_identity [(''hasOwnProperty'', ''pw'')]]
     = Inl TypeError"
  by (simp add: memory_defs filter_defs method_defs object_defs)

text \<open>
  Claim C9. After \<^verbatim>\<open>add(name, value)\<close>, a wallet constructed anew for the same wallet and
  enrollment is to read \<open>value\<close> with \<^verbatim>\<open>get(name)\<close>, for every name. For the name
  \<^verbatim>\<open>__proto__\<close> nothing is stored: \<^verbatim>\<open>add\<close> saves the record unchanged and the new wallet
  reads the prototype object.
\<close>

theorem add_proto_lost_after_reconstruction:
  "add (constructor memory_app \<lparr>wallet_id = ''w1''\<rparr> ''alice'') ''__proto__'' ''secret''
       [alice_identity [(''cert'', ''A'')]]
     = Inr [alice_identity [(''cert'', ''A'')]] \<and>
   get (constructor memory_app \<lparr>wallet_id = ''w1''\<rparr> ''alice'') ''__proto__''
       [alice_identity [(''cert'', ''A'')]]
     = Inr ObjectPrototype"
  by (simp add: memory_defs filter_defs method_defs object_defs)

text \<open>
  Claim C10. Each mutator changes only the entry it names: \<^verbatim>\<open>add\<close>, \<^verbatim>\<open>update\<close> and
  \<^verbatim>\<open>remove\<close> hand to \<^verbatim>\<open>save\<close> the record they fetched, with a \<^verbatim>\<open>data\<close> object in which
  every other name has the own property it had, and reads as it did.
\<close>

theorem mutators_frame:
  assumes "name' \<noteq> name"
  shows
    "(findOne (app this) (add_filter this) st = Inr (Some i) \<longrightarrow>
        add this name v st = save (app this) (i\<lparr>data := js_set (data i) name v\<rparr>) st \<and>
        map_of (js_set (data i) name v) name' = map_of (data i) name' \<and>
        js_get (js_set (data i) name v) name' = js_get (data i) name') \<and>
     (findOne (app this) (update_filter this) st = Inr (Some i) \<longrightarrow>
        update this name v st = save (app this) (i\<lparr>data := js_set (data i) name v\<rparr>) st \<and>
        map_of (js_set (data i) name v) name' = map_of (data i) name' \<and>
        js_get (js_set (data i) name v) name' = js_get (data i) name') \<and>
     (findOne (app this) (remove_filter this) st = Inr (Some i) \<longrightarrow>
        remove this name st = save (app this) (i\<lparr>data := js_delete (data i) name\<rparr>) st \<and>
        map_of (js_delete (data i) name) name' = map_of (data i) name' \<and>
        js_get (js_delete (data i) name) name' = js_get (data i) name')"
proof -
  have set_own: "map_of (js_set (data i) name v) name' = map_of (data i) name'"
    using assms by (rule map_of_js_set_other)
  have del_own: "map_of (js_delete (data i) name) name' = map_of (data i) name'"
    using assms by (simp add: map_of_js_delete)
  have set_get: "js_get (js_set (data i) name v) name' = js_get (data i) name'"
    using set_own by (rule js_get_cong_own)
  have del_get: "js_get (js_delete (data i) name) name' = js_get (data i) name'"
    using del_own by (rule js_get_cong_own)
  have upd: "update this name v st = add this name v st"
    by (simp add: update_def add_def update_filter_def add_filter_def)
  have upd_filter: "update_filter this = add_filter this"
    by (simp add: update_filter_def add_filter_def)
  show ?thesis
    by (simp add: upd upd_filter add_saves remove_saves set_own del_own set_get del_get)
qed

theorem mutators_frame_witness:
  "''cert'' \<noteq> ''key'' \<and>
   findOne (app alice) (add_filter alice) [alice_identity [(''cert'', ''A''), (''key'', ''B'')]]
     = Inr (Some (alice_identity [(''cert'', ''A''), (''key'', ''B'')])) \<and>
   findOne (app alice) (update_filter alice) [alice_identity [(''cert'', ''A''), (''key'', ''B'')]]
     = Inr (Some (alice_identity [(''cert'', ''A''), (''key'', ''B'')])) \<and>
   findOne (app alice) (remove_filter alice) [alice_identity [(''cert'', ''A''), (''key'', ''B'')]]
     = Inr (Some (alice_identity [(''cert'', ''A''), (''key'', ''B'')])) \<and>
   add alice ''key'' ''C'' [alice_identity [(''cert'', ''A''), (''key'', ''B'')]]
     = Inr [alice_identity [(''cert'', ''A''), (''key'', ''C'')]] \<and>
   update alice ''key'' ''C'' [alice_identity [(''cert'', ''A''), (''key'', ''B'')]]
     = Inr [alice_identity [(''cert'', ''A''), (''key'', ''C'')]] \<and>
   remove alice ''key'' [alice_identity [(''cert'', ''A''), (''key'', ''B'')]]
     = Inr [alice_identity [(''cert'', ''A'')]] \<and>
   map_of (js_set [(''cert'', ''A''), (''key'', ''B'')] ''key'' ''C'') ''cert'' = Some ''A'' \<and>
   map_of (js_delete [(''cert'', ''A''), (''key'', ''B'')] ''key'') ''cert'' = Some ''A''"
  using mutators_frame [of "''cert''" "''key''" alice
      "[alice_identity [(''cert'', ''A''), (''key'', ''B'')]]"
      "alice_identity [(''cert'', ''A''), (''key'', ''B'')]" "''C''"]
  by (simp add: memory_defs filter_defs method_defs object_defs)

end
